theory Spec2Isabelle
  imports Main "HOL-Library.Monad_Syntax"
begin

section \<open>Types and symbols\<close>

text \<open>
  A \<open>sym*\<close> is an address into the symbol store; pointer equality of symbols
  (\<open>DT->basic == Model->basic\<close>) is equality of addresses.
\<close>

type_synonym symref = nat

datatype typeTag = typeBasic | typePtr | typeArray | typeFunction | typeInvalid

text \<open>
  \<open>typeCreate\<close> is static and zeroes every field, so each \<open>type\<close> value is built by one
  of the five public constructors. The struct is embedded as a datatype with one
  constructor for each of them; the field readers below return the zero that
  \<open>typeCreate\<close> left in the fields a constructor does not assign. The pair
  \<open>paramTypes\<close>/\<open>params\<close> (array and its length) is one list.
\<close>

datatype type =
    Basic symref
  | Ptr type
  | Array type int
  | Function type "type list"
  | Invalid

fun tag :: "type \<Rightarrow> typeTag" where
  "tag (Basic s) = typeBasic"
| "tag (Ptr b) = typePtr"
| "tag (Array b n) = typeArray"
| "tag (Function r ps) = typeFunction"
| "tag Invalid = typeInvalid"

fun basic :: "type \<Rightarrow> symref option" where
  "basic (Basic s) = Some s"
| "basic _ = None"

fun base :: "type \<Rightarrow> type option" where
  "base (Ptr b) = Some b"
| "base (Array b n) = Some b"
| "base _ = None"

fun array :: "type \<Rightarrow> int" where
  "array (Array b n) = n"
| "array _ = 0"

fun returnType :: "type \<Rightarrow> type option" where
  "returnType (Function r ps) = Some r"
| "returnType _ = None"

fun paramTypes :: "type \<Rightarrow> type list" where
  "paramTypes (Function r ps) = ps"
| "paramTypes _ = []"

definition params :: "type \<Rightarrow> int" where
  "params DT = int (length (paramTypes DT))"

datatype symTag = symUndefined | symType | symStruct | symEnumConstant | symId | symParam

text \<open>
  Modelled from the spec: the classification bits of \<open>typeMask\<close>. Their declaration
  (inc/type.h) is not among the sources; the mask is the set of the bits that are on,
  and \<open>mask & bit\<close> is membership.
\<close>

datatype typeMaskBit = typeNumeric | typeOrdinal | typeEquality | typeAssignment | typeCondition

record sym =
  sym_tag :: symTag
  ident :: string
  sym_dt :: "type option"
  typeMask :: "typeMaskBit set"
  sym_size :: int
  sym_children :: "symref list"

type_synonym symstore = "symref \<Rightarrow> sym"

subsection \<open>Constructors and duplication\<close>

definition typeCreateBasic :: "symref \<Rightarrow> type" where
  "typeCreateBasic s = Basic s"

definition typeCreatePtr :: "type \<Rightarrow> type" where
  "typeCreatePtr b = Ptr b"

definition typeCreateArray :: "type \<Rightarrow> int \<Rightarrow> type" where
  "typeCreateArray b n = Array b n"

definition typeCreateFunction :: "type \<Rightarrow> type list \<Rightarrow> type" where
  "typeCreateFunction r ps = Function r ps"

definition typeCreateInvalid :: type where
  "typeCreateInvalid = Invalid"

fun typeDeepDuplicate :: "type \<Rightarrow> type" where
  "typeDeepDuplicate Invalid = typeCreateInvalid"
| "typeDeepDuplicate (Basic s) = typeCreateBasic s"
| "typeDeepDuplicate (Ptr b) = typeCreatePtr (typeDeepDuplicate b)"
| "typeDeepDuplicate (Array b n) = typeCreateArray (typeDeepDuplicate b) n"
| "typeDeepDuplicate (Function r ps) =
     typeCreateFunction (typeDeepDuplicate r) (map typeDeepDuplicate ps)"

subsection \<open>Classification\<close>

definition typeIsInvalid :: "type \<Rightarrow> bool" where
  "typeIsInvalid DT = (tag DT = typeInvalid)"

definition typeIsBasic :: "type \<Rightarrow> bool" where
  "typeIsBasic DT = (tag DT = typeBasic \<or> typeIsInvalid DT)"

definition typeIsPtr :: "type \<Rightarrow> bool" where
  "typeIsPtr DT = (tag DT = typePtr \<or> typeIsInvalid DT)"

definition typeIsArray :: "type \<Rightarrow> bool" where
  "typeIsArray DT = (tag DT = typeArray \<or> typeIsInvalid DT)"

definition typeIsFunction :: "type \<Rightarrow> bool" where
  "typeIsFunction DT = (tag DT = typeFunction \<or> typeIsInvalid DT)"

text \<open>
  \<open>typeGetSize\<close> multiplies C ints for an array, a product that can overflow in C and
  is taken in the unbounded integers here; \<open>typeIsVoid\<close>, its only caller here, asks
  for the size of a basic type only, where the size is read from the symbol and
  nothing is multiplied.
\<close>

fun typeGetSize :: "symstore \<Rightarrow> type \<Rightarrow> int" where
  "typeGetSize H Invalid = 0"
| "typeGetSize H (Array b n) = n * typeGetSize H b"
| "typeGetSize H (Ptr b) = 8"
| "typeGetSize H (Function r ps) = 8"
| "typeGetSize H (Basic s) = sym_size (H s)"

definition typeIsVoid :: "symstore \<Rightarrow> type \<Rightarrow> bool" where
  "typeIsVoid H DT =
     ((case DT of Basic s \<Rightarrow> sym_tag (H s) = symType \<and> typeGetSize H DT = 0 | _ \<Rightarrow> False)
      \<or> typeIsInvalid DT)"

definition typeIsRecord :: "symstore \<Rightarrow> type \<Rightarrow> bool" where
  "typeIsRecord H DT =
     ((case DT of Basic s \<Rightarrow> sym_tag (H s) = symStruct | _ \<Rightarrow> False) \<or> typeIsInvalid DT)"

definition typeIsCallable :: "type \<Rightarrow> bool" where
  "typeIsCallable DT =
     ((typeIsFunction DT \<or> (case DT of Ptr b \<Rightarrow> typeIsFunction b | _ \<Rightarrow> False))
      \<or> typeIsInvalid DT)"

text \<open>\<open>typeHasBit H DT m\<close> is the test \<open>DT->tag == typeBasic && (DT->basic->typeMask & m)\<close>.\<close>

definition typeHasBit :: "symstore \<Rightarrow> type \<Rightarrow> typeMaskBit \<Rightarrow> bool" where
  "typeHasBit H DT m = (case DT of Basic s \<Rightarrow> m \<in> typeMask (H s) | _ \<Rightarrow> False)"

definition typeIsNumeric :: "symstore \<Rightarrow> type \<Rightarrow> bool" where
  "typeIsNumeric H DT = (typeHasBit H DT typeNumeric \<or> typeIsPtr DT \<or> typeIsInvalid DT)"

definition typeIsOrdinal :: "symstore \<Rightarrow> type \<Rightarrow> bool" where
  "typeIsOrdinal H DT = (typeHasBit H DT typeOrdinal \<or> typeIsPtr DT \<or> typeIsInvalid DT)"

definition typeIsEquality :: "symstore \<Rightarrow> type \<Rightarrow> bool" where
  "typeIsEquality H DT = (typeHasBit H DT typeEquality \<or> typeIsPtr DT \<or> typeIsInvalid DT)"

definition typeIsAssignment :: "symstore \<Rightarrow> type \<Rightarrow> bool" where
  "typeIsAssignment H DT = (typeHasBit H DT typeAssignment \<or> typeIsPtr DT \<or> typeIsInvalid DT)"

definition typeIsCondition :: "symstore \<Rightarrow> type \<Rightarrow> bool" where
  "typeIsCondition H DT = (typeHasBit H DT typeCondition \<or> typeIsPtr DT \<or> typeIsInvalid DT)"

subsection \<open>Comparison\<close>

text \<open>
  A result \<open>None\<close> is a read through a null pointer: a field that \<open>typeCreate\<close> zeroed
  is dereferenced (\<open>DT->returnType\<close> of a type that is no function, \<open>DT->base\<close> of one
  that is neither pointer nor array), or the parameter loop reads past an array.
  \<open>typeIsEqualParams\<close> is the \<open>for\<close> loop of \<open>typeIsCompatible\<close> over
  \<open>DT->paramTypes[i]\<close> and \<open>Model->paramTypes[i]\<close>, leaving with \<open>false\<close> at the first
  pair that is not equal.
\<close>

lemma base_size [termination_simp]: "base t = Some b \<Longrightarrow> size b < size t"
  by (cases t) auto

lemma returnType_size [termination_simp]: "returnType t = Some r \<Longrightarrow> size r < size t"
  by (cases t) auto

lemma paramTypes_size [termination_simp]: "\<not> typeIsInvalid t \<Longrightarrow> typeIsFunction t \<Longrightarrow>
    size_list size (paramTypes t) < size t"
  by (cases t) (auto simp: typeIsFunction_def typeIsInvalid_def)

function typeIsCompatible :: "symstore \<Rightarrow> type \<Rightarrow> type \<Rightarrow> bool option"
  and typeIsEqualParams :: "symstore \<Rightarrow> type list \<Rightarrow> type list \<Rightarrow> bool option"
  and typeIsEqual :: "symstore \<Rightarrow> type \<Rightarrow> type \<Rightarrow> bool option"
where
  "typeIsCompatible H DT Model =
     (if typeIsInvalid DT \<or> typeIsInvalid Model then Some True
      else if typeIsFunction Model then
        (if params Model \<noteq> params DT then Some False
         else do {
           same \<leftarrow> typeIsEqualParams H (paramTypes DT) (paramTypes Model);
           if \<not> same then Some False
           else do {
             dr \<leftarrow> returnType DT;
             mr \<leftarrow> returnType Model;
             typeIsEqual H dr mr
           }
         })
      else if typeIsPtr Model then
        do {
          viaBase \<leftarrow>
            (if typeIsPtr DT \<or> typeIsArray DT then
               do {
                 mb \<leftarrow> base Model;
                 if typeIsVoid H mb then Some True
                 else do { db \<leftarrow> base DT; typeIsCompatible H db mb }
               }
             else Some False);
          if viaBase then Some True
          else if typeIsBasic DT then
            do { s \<leftarrow> basic DT; Some (typeNumeric \<in> typeMask (H s)) }
          else Some False
        }
      else if typeIsArray Model then
        (if \<not> typeIsArray DT then Some False
         else if \<not> (array DT = array Model \<or> array Model = - 1) then Some False
         else do { db \<leftarrow> base DT; mb \<leftarrow> base Model; typeIsCompatible H db mb })
      else
        (if typeIsPtr DT then
           do { s \<leftarrow> basic Model; Some (typeNumeric \<in> typeMask (H s)) }
         else Some (\<not> typeIsArray DT \<and> basic DT = basic Model)))"
| "typeIsEqualParams H [] [] = Some True"
| "typeIsEqualParams H (d # ds) (m # ms) =
     do {
       same \<leftarrow> typeIsEqual H d m;
       if \<not> same then Some False else typeIsEqualParams H ds ms
     }"
| "typeIsEqualParams H [] (m # ms) = None"
| "typeIsEqualParams H (d # ds) [] = None"
| "typeIsEqual H L R =
     (if typeIsInvalid L \<or> typeIsInvalid R then Some True
      else if tag L \<noteq> tag R then Some False
      else if typeIsFunction L then typeIsCompatible H L R
      else if typeIsPtr L then
        do { lb \<leftarrow> base L; rb \<leftarrow> base R; typeIsEqual H lb rb }
      else if typeIsArray L then
        (if array L \<noteq> array R then Some False
         else do { lb \<leftarrow> base L; rb \<leftarrow> base R; typeIsEqual H lb rb })
      else Some (basic L = basic R))"
  by pat_completeness auto
termination
  by (relation "measure (\<lambda>x. case x of
        Inl (H, DT, Model) \<Rightarrow> 2 * size Model
      | Inr (Inl (H, ds, ms)) \<Rightarrow> 2 * size_list size ms
      | Inr (Inr (H, L, R)) \<Rightarrow> 2 * size R + 1)")
    (auto dest: base_size returnType_size paramTypes_size)

declare typeIsCompatible.simps [simp del] typeIsEqual.simps [simp del]


subsection \<open>Derivation\<close>

text \<open>
  \<open>debugAssert\<close> (inc/debug.h, not among the sources) is called with the value of its
  condition: the condition is computed, so a null read inside it is a null read of the
  caller, and its value changes nothing in what is returned.
\<close>

definition typeDeriveFrom :: "type \<Rightarrow> type" where
  "typeDeriveFrom DT = typeDeepDuplicate DT"

definition typeDeriveFromTwo :: "symstore \<Rightarrow> type \<Rightarrow> type \<Rightarrow> type option" where
  "typeDeriveFromTwo H L R =
     (if typeIsInvalid L \<or> typeIsInvalid R then Some typeCreateInvalid
      else do { asserted \<leftarrow> typeIsCompatible H L R; Some (typeDeriveFrom L) })"

definition typeDeriveUnified :: "symstore \<Rightarrow> type \<Rightarrow> type \<Rightarrow> type option" where
  "typeDeriveUnified H L R =
     (if typeIsInvalid L \<or> typeIsInvalid R then Some typeCreateInvalid
      else do {
        asserted \<leftarrow> typeIsCompatible H L R;
        same \<leftarrow> typeIsEqual H L R;
        if same then Some (typeDeepDuplicate L) else typeDeriveFromTwo H L R
      })"

definition typeDeriveBase :: "type \<Rightarrow> type option" where
  "typeDeriveBase DT =
     (if typeIsInvalid DT then Some typeCreateInvalid
      else do { b \<leftarrow> base DT; Some (typeDeepDuplicate b) })"

definition typeDerivePtr :: "type \<Rightarrow> type" where
  "typeDerivePtr b = typeCreatePtr (typeDeepDuplicate b)"

definition typeDeriveArray :: "type \<Rightarrow> int \<Rightarrow> type" where
  "typeDeriveArray b n = typeCreateArray (typeDeepDuplicate b) n"

fun typeDeriveReturn :: "type \<Rightarrow> type option" where
  "typeDeriveReturn DT =
     (if typeIsInvalid DT then Some typeCreateInvalid
      else if typeIsPtr DT then do { b \<leftarrow> base DT; typeDeriveReturn b }
      else do { r \<leftarrow> returnType DT; Some (typeDeepDuplicate r) })"

declare typeDeriveReturn.simps [simp del]

section \<open>The syntax tree\<close>

text \<open>
  The tags and literal classes are those the sources name (inc/ast.h is not among
  them). A node keeps the fields the analyzer reads and writes: the operator spelling
  \<open>o\<close>, the identifier a literal carries, the derived type \<open>dt\<close> and the symbol (both
  null before the analysis), the operands \<open>l\<close> and \<open>r\<close> (null when absent), and the
  child list that starts at \<open>firstChild\<close> and goes on through \<open>nextSibling\<close>; the count
  \<open>children\<close> is its length.
\<close>

datatype astTag =
    astUndefined | astInvalid | astEmpty | astModule | astUsing | astFnImpl | astDecl
  | astType | astCode | astBranch | astLoop | astIter | astReturn | astBreak
  | astBOP | astUOP | astTOP | astIndex | astCall | astCast | astSizeof | astLiteral

datatype literalTag =
    literalUndefined | literalIdent | literalInt | literalChar | literalBool | literalStr
  | literalCompound | literalInit

datatype ast =
  Ast (ast_tag: astTag) (litTag: literalTag) (ast_o: string) (literal: string)
      (ast_dt: "type option") (ast_symbol: "symref option")
      (ast_l: "ast option") (ast_r: "ast option") (firstChild: "ast list")

definition children :: "ast \<Rightarrow> int" where
  "children Node = int (length (firstChild Node))"

fun set_dt :: "ast \<Rightarrow> type \<Rightarrow> ast" where
  "set_dt (Ast tg lt opr lit d sy ln rn cs) T = Ast tg lt opr lit (Some T) sy ln rn cs"

fun set_symbol :: "ast \<Rightarrow> symref option \<Rightarrow> ast" where
  "set_symbol (Ast tg lt opr lit d sy ln rn cs) s = Ast tg lt opr lit d s ln rn cs"

fun set_l :: "ast \<Rightarrow> ast \<Rightarrow> ast" where
  "set_l (Ast tg lt opr lit d sy ln rn cs) x = Ast tg lt opr lit d sy (Some x) rn cs"

fun set_r :: "ast \<Rightarrow> ast \<Rightarrow> ast" where
  "set_r (Ast tg lt opr lit d sy ln rn cs) x = Ast tg lt opr lit d sy ln (Some x) cs"

fun set_children :: "ast \<Rightarrow> ast list \<Rightarrow> ast" where
  "set_children (Ast tg lt opr lit d sy ln rn cs) xs = Ast tg lt opr lit d sy ln rn xs"

section \<open>Diagnostics and context\<close>

text \<open>
  Modelled from the spec: the reporting primitives of the diagnostics sink (inc/error.h
  is not among the sources). Each call adds one diagnostic, in the order of the calls;
  the error count is the length of the list. A diagnostic keeps the texts, numbers,
  types and symbols the call passes. The node argument of the calls gives the source
  location, which is not recorded.
\<close>

datatype diag =
    TypeExpected string string
  | TypeExpectedType string type
  | Lvalue string
  | Mismatch string
  | Degree string int int string
  | ParamMismatch nat type type
  | NamedParamMismatch nat symref type
  | Member string string type
  | InitFieldMismatch symref symref
  | IllegalSymAsValue symref

datatype builtinType = builtinVoid | builtinBool | builtinChar | builtinInt

text \<open>
  The context holds the table of builtin types and the diagnostics; \<open>syms\<close> is the
  memory of the symbols, which \<open>analyzerCompoundLiteral\<close> writes.
\<close>

record analyzerCtx =
  types :: "builtinType \<Rightarrow> symref"
  diags :: "diag list"
  syms :: symstore

record valueResult =
  dt :: type
  lvalue :: bool

text \<open>
  What the analyzer takes from files that are not among the sources: \<open>analyzerType\<close>
  (inc/analyzer-decl.h), which types a type expression, may report, and returns the
  type with the node and the context as it left them; and the reading of the field
  \<open>variadic\<close> of a type (inc/type.h), which the type constructors at hand never write.
\<close>

record externals =
  analyzerType :: "analyzerCtx \<Rightarrow> ast \<Rightarrow> type \<times> ast \<times> analyzerCtx"
  variadic :: "type \<Rightarrow> bool"

definition report :: "analyzerCtx \<Rightarrow> diag \<Rightarrow> analyzerCtx" where
  "report ctx d = ctx\<lparr>diags := diags ctx @ [d]\<rparr>"

definition errorTypeExpected :: "analyzerCtx \<Rightarrow> string \<Rightarrow> string \<Rightarrow> analyzerCtx" where
  "errorTypeExpected ctx wher expected = report ctx (TypeExpected wher expected)"

definition errorTypeExpectedType :: "analyzerCtx \<Rightarrow> string \<Rightarrow> type \<Rightarrow> analyzerCtx" where
  "errorTypeExpectedType ctx wher expected = report ctx (TypeExpectedType wher expected)"

definition errorLvalue :: "analyzerCtx \<Rightarrow> string \<Rightarrow> analyzerCtx" where
  "errorLvalue ctx opr = report ctx (Lvalue opr)"

definition errorMismatch :: "analyzerCtx \<Rightarrow> string \<Rightarrow> analyzerCtx" where
  "errorMismatch ctx opr = report ctx (Mismatch opr)"

definition errorDegree :: "analyzerCtx \<Rightarrow> string \<Rightarrow> int \<Rightarrow> int \<Rightarrow> string \<Rightarrow> analyzerCtx" where
  "errorDegree ctx thing expected found wher = report ctx (Degree thing expected found wher)"

definition errorParamMismatch :: "analyzerCtx \<Rightarrow> nat \<Rightarrow> type \<Rightarrow> type \<Rightarrow> analyzerCtx" where
  "errorParamMismatch ctx n expected found = report ctx (ParamMismatch n expected found)"

definition errorNamedParamMismatch :: "analyzerCtx \<Rightarrow> nat \<Rightarrow> symref \<Rightarrow> type \<Rightarrow> analyzerCtx" where
  "errorNamedParamMismatch ctx n fn found = report ctx (NamedParamMismatch n fn found)"

definition errorMember :: "analyzerCtx \<Rightarrow> string \<Rightarrow> string \<Rightarrow> type \<Rightarrow> analyzerCtx" where
  "errorMember ctx opr field found = report ctx (Member opr field found)"

definition errorInitFieldMismatch :: "analyzerCtx \<Rightarrow> symref \<Rightarrow> symref \<Rightarrow> analyzerCtx" where
  "errorInitFieldMismatch ctx structSym field = report ctx (InitFieldMismatch structSym field)"

definition errorIllegalSymAsValue :: "analyzerCtx \<Rightarrow> symref \<Rightarrow> analyzerCtx" where
  "errorIllegalSymAsValue ctx s = report ctx (IllegalSymAsValue s)"

text \<open>
  Modelled from the spec: \<open>typeGetRecordSym\<close> (declared in inc/type.h, absent from the
  type algebra at hand) gives the struct symbol of a direct record or of a pointer to a
  record, and null for any other type; \<open>symChild\<close> (inc/sym.h) looks a name up among
  the children of a symbol, in their order.
\<close>

definition typeGetRecordSym :: "symstore \<Rightarrow> type \<Rightarrow> symref option" where
  "typeGetRecordSym H DT =
     (case DT of
        Basic s \<Rightarrow> if sym_tag (H s) = symStruct then Some s else None
      | Ptr (Basic s) \<Rightarrow> if sym_tag (H s) = symStruct then Some s else None
      | _ \<Rightarrow> None)"

definition symChild :: "symstore \<Rightarrow> symref \<Rightarrow> string \<Rightarrow> symref option" where
  "symChild H parent name = find (\<lambda>c. ident (H c) = name) (sym_children (H parent))"

section \<open>The expression analyzer\<close>

definition isNumericBOP :: "string \<Rightarrow> bool" where
  "isNumericBOP opr \<longleftrightarrow>
     opr \<in> {''+'', ''-'', ''*'', ''/'', ''%'', ''&'', ''|'', ''^'', ''<<'', ''>>'',
            ''+='', ''-='', ''*='', ''/='', ''%='', ''&='', ''|='', ''^='', ''<<='', ''>>=''}"

definition isOrdinalBOP :: "string \<Rightarrow> bool" where
  "isOrdinalBOP opr \<longleftrightarrow> opr \<in> {''>'', ''<'', ''>='', ''<=''}"

definition isEqualityBOP :: "string \<Rightarrow> bool" where
  "isEqualityBOP opr \<longleftrightarrow> opr \<in> {''=='', ''!=''}"

definition isAssignmentBOP :: "string \<Rightarrow> bool" where
  "isAssignmentBOP opr \<longleftrightarrow>
     opr \<in> {''='', ''+='', ''-='', ''*='', ''/='', ''%='', ''&='', ''|='', ''^='',
            ''<<='', ''>>=''}"

definition isLogicalBOP :: "string \<Rightarrow> bool" where
  "isLogicalBOP opr \<longleftrightarrow> opr \<in> {''&&'', ''||''}"

definition isMemberBOP :: "string \<Rightarrow> bool" where
  "isMemberBOP opr \<longleftrightarrow> opr \<in> {''.'', ''->''}"

definition isDerefBOP :: "string \<Rightarrow> bool" where
  "isDerefBOP opr \<longleftrightarrow> opr = ''->''"

definition isCommaBOP :: "string \<Rightarrow> bool" where
  "isCommaBOP opr \<longleftrightarrow> opr = '',''"

text \<open>
  Every analyzer returns the \<open>valueResult\<close> of the C function, the node as the call
  left it (the C code writes \<open>dt\<close> and \<open>symbol\<close> in place, in the node and below it),
  and the context. \<open>None\<close> is a read through a null pointer. The \<open>debug...\<close> calls write
  to the debug log only and are left out.

  The loops over a child list are functions of their own, on the list from \<open>Current\<close>
  on, and return the list as the loop left it. \<open>analyzerCallParams\<close> is the first
  loop of \<open>analyzerCall\<close>, with the counter \<open>n\<close>; where it stops, \<open>analyzerCallRest\<close>,
  the second loop, takes over from the same \<open>Current\<close>. \<open>analyzerInitFields\<close> walks the
  elements and the fields of a struct together, \<open>analyzerInitElements\<close> the elements of
  an array.
\<close>

type_synonym result = "(valueResult \<times> ast \<times> analyzerCtx) option"

definition finish :: "ast \<Rightarrow> type \<Rightarrow> bool \<Rightarrow> analyzerCtx \<Rightarrow> result" where
  "finish Node T lv ctx = Some (\<lparr>dt = T, lvalue = lv\<rparr>, set_dt Node T, ctx)"

lemma ast_l_size: "ast_l n = Some x \<Longrightarrow> size x < size n"
  by (cases n) auto

lemma ast_r_size: "ast_r n = Some x \<Longrightarrow> size x < size n"
  by (cases n) auto

lemma firstChild_size: "size_list size (firstChild n) < size n"
  by (cases n) auto

lemma firstChild_set_dt [simp]: "firstChild (set_dt n T) = firstChild n"
  by (cases n) auto

lemma firstChild_hd_size: "firstChild n = c # cs \<Longrightarrow> size c < size n"
  by (cases n) auto

lemma firstChild_size3: "Suc (3 * size_list size (firstChild n)) \<le> 3 * size n"
  using firstChild_size [of n] by simp

definition analyzerLiteral :: "externals \<Rightarrow> analyzerCtx \<Rightarrow> ast \<Rightarrow> result" where
  "analyzerLiteral X ctx Node =
     (if litTag Node = literalInt then
        finish Node (typeCreateBasic (types ctx builtinInt)) (litTag Node = literalIdent) ctx
      else if litTag Node = literalChar then
        finish Node (typeCreateBasic (types ctx builtinChar)) (litTag Node = literalIdent) ctx
      else if litTag Node = literalBool then
        finish Node (typeCreateBasic (types ctx builtinBool)) (litTag Node = literalIdent) ctx
      else if litTag Node = literalStr then
        finish Node (typeCreatePtr (typeCreateBasic (types ctx builtinChar)))
          (litTag Node = literalIdent) ctx
      else if litTag Node = literalIdent then
        do {
          s \<leftarrow> ast_symbol Node;
          if sym_tag (syms ctx s) = symEnumConstant \<or> sym_tag (syms ctx s) = symId
             \<or> sym_tag (syms ctx s) = symParam then
            (case sym_dt (syms ctx s) of
               Some T \<Rightarrow> finish Node (typeDeepDuplicate T) (litTag Node = literalIdent) ctx
             | None \<Rightarrow> finish Node typeCreateInvalid (litTag Node = literalIdent) ctx)
          else
            finish Node typeCreateInvalid (litTag Node = literalIdent)
              (errorIllegalSymAsValue ctx s)
        }
      else finish Node typeCreateInvalid (litTag Node = literalIdent) ctx)"

function analyzerValue :: "externals \<Rightarrow> analyzerCtx \<Rightarrow> ast \<Rightarrow> result"
  and analyzerBOP :: "externals \<Rightarrow> analyzerCtx \<Rightarrow> ast \<Rightarrow> result"
  and analyzerComparisonBOP :: "externals \<Rightarrow> analyzerCtx \<Rightarrow> ast \<Rightarrow> result"
  and analyzerLogicalBOP :: "externals \<Rightarrow> analyzerCtx \<Rightarrow> ast \<Rightarrow> result"
  and analyzerMemberBOP :: "externals \<Rightarrow> analyzerCtx \<Rightarrow> ast \<Rightarrow> result"
  and analyzerCommaBOP :: "externals \<Rightarrow> analyzerCtx \<Rightarrow> ast \<Rightarrow> result"
  and analyzerUOP :: "externals \<Rightarrow> analyzerCtx \<Rightarrow> ast \<Rightarrow> result"
  and analyzerTernary :: "externals \<Rightarrow> analyzerCtx \<Rightarrow> ast \<Rightarrow> result"
  and analyzerIndex :: "externals \<Rightarrow> analyzerCtx \<Rightarrow> ast \<Rightarrow> result"
  and analyzerCall :: "externals \<Rightarrow> analyzerCtx \<Rightarrow> ast \<Rightarrow> result"
  and analyzerCallParams ::
    "externals \<Rightarrow> analyzerCtx \<Rightarrow> symref option \<Rightarrow> type \<Rightarrow> nat \<Rightarrow> ast list
       \<Rightarrow> (ast list \<times> analyzerCtx) option"
  and analyzerCallRest ::
    "externals \<Rightarrow> analyzerCtx \<Rightarrow> ast list \<Rightarrow> (ast list \<times> analyzerCtx) option"
  and analyzerCast :: "externals \<Rightarrow> analyzerCtx \<Rightarrow> ast \<Rightarrow> result"
  and analyzerSizeof :: "externals \<Rightarrow> analyzerCtx \<Rightarrow> ast \<Rightarrow> result"
  and analyzerCompoundLiteral :: "externals \<Rightarrow> analyzerCtx \<Rightarrow> ast \<Rightarrow> result"
  and analyzerInitOrCompoundLiteral :: "externals \<Rightarrow> analyzerCtx \<Rightarrow> ast \<Rightarrow> type \<Rightarrow> result"
  and analyzerInitFields ::
    "externals \<Rightarrow> analyzerCtx \<Rightarrow> symref \<Rightarrow> ast list \<Rightarrow> symref list
       \<Rightarrow> (ast list \<times> analyzerCtx) option"
  and analyzerInitElements ::
    "externals \<Rightarrow> analyzerCtx \<Rightarrow> type \<Rightarrow> ast list \<Rightarrow> (ast list \<times> analyzerCtx) option"
where
  "analyzerValue X ctx Node =
     (if ast_tag Node = astBOP then
        (if isNumericBOP (ast_o Node) \<or> isAssignmentBOP (ast_o Node) then
           analyzerBOP X ctx Node
         else if isOrdinalBOP (ast_o Node) \<or> isEqualityBOP (ast_o Node) then
           analyzerComparisonBOP X ctx Node
         else if isLogicalBOP (ast_o Node) then analyzerLogicalBOP X ctx Node
         else if isMemberBOP (ast_o Node) then analyzerMemberBOP X ctx Node
         else if isCommaBOP (ast_o Node) then analyzerCommaBOP X ctx Node
         else finish Node typeCreateInvalid True ctx)
      else if ast_tag Node = astUOP then analyzerUOP X ctx Node
      else if ast_tag Node = astTOP then analyzerTernary X ctx Node
      else if ast_tag Node = astIndex then analyzerIndex X ctx Node
      else if ast_tag Node = astCall then analyzerCall X ctx Node
      else if ast_tag Node = astCast then analyzerCast X ctx Node
      else if ast_tag Node = astSizeof then analyzerSizeof X ctx Node
      else if ast_tag Node = astLiteral then
        (if litTag Node = literalCompound then analyzerCompoundLiteral X ctx Node
         else analyzerLiteral X ctx Node)
      else if ast_tag Node = astInvalid then finish Node typeCreateInvalid True ctx
      else finish Node typeCreateInvalid True ctx)"
| "analyzerBOP X ctx Node =
     do {
       Ln \<leftarrow> ast_l Node;
       (L, Ln', c1) \<leftarrow> analyzerValue X ctx Ln;
       Rn \<leftarrow> ast_r Node;
       (R, Rn', c2) \<leftarrow> analyzerValue X c1 Rn;
       let N1 = set_r (set_l Node Ln') Rn';
       let H = syms c2;
       let c3 =
         (if isNumericBOP (ast_o Node)
             \<and> (\<not> typeIsNumeric H (dt L) \<or> \<not> typeIsNumeric H (dt R))
          then errorTypeExpected c2 (ast_o Node) ''numeric type'' else c2);
       let c4 =
         (if isAssignmentBOP (ast_o Node) then
            (let c = (if \<not> typeIsAssignment H (dt L) \<or> \<not> typeIsAssignment H (dt R)
                      then errorTypeExpected c3 (ast_o Node) ''assignable type'' else c3)
             in if \<not> lvalue L then errorLvalue c (ast_o Node) else c)
          else c3);
       compatible \<leftarrow> typeIsCompatible H (dt L) (dt R);
       if compatible then
         do { T \<leftarrow> typeDeriveFromTwo H (dt L) (dt R); finish N1 T False c4 }
       else finish N1 typeCreateInvalid False (errorMismatch c4 (ast_o Node))
     }"
| "analyzerComparisonBOP X ctx Node =
     do {
       Ln \<leftarrow> ast_l Node;
       (L, Ln', c1) \<leftarrow> analyzerValue X ctx Ln;
       Rn \<leftarrow> ast_r Node;
       (R, Rn', c2) \<leftarrow> analyzerValue X c1 Rn;
       let N1 = set_r (set_l Node Ln') Rn';
       let H = syms c2;
       let c3 =
         (if isOrdinalBOP (ast_o Node) then
            (if \<not> typeIsOrdinal H (dt L) \<or> \<not> typeIsOrdinal H (dt R)
             then errorTypeExpected c2 (ast_o Node) ''comparable type'' else c2)
          else
            (if \<not> typeIsEquality H (dt L) \<or> \<not> typeIsEquality H (dt R)
             then errorTypeExpected c2 (ast_o Node) ''comparable type'' else c2));
       compatible \<leftarrow> typeIsCompatible H (dt L) (dt R);
       finish N1 (typeCreateBasic (types c3 builtinBool)) False
         (if \<not> compatible then errorMismatch c3 (ast_o Node) else c3)
     }"
| "analyzerLogicalBOP X ctx Node =
     do {
       Ln \<leftarrow> ast_l Node;
       (L, Ln', c1) \<leftarrow> analyzerValue X ctx Ln;
       Rn \<leftarrow> ast_r Node;
       (R, Rn', c2) \<leftarrow> analyzerValue X c1 Rn;
       let N1 = set_r (set_l Node Ln') Rn';
       let H = syms c2;
       finish N1 (typeCreateBasic (types c2 builtinBool)) False
         (if \<not> typeIsCondition H (dt L) \<or> \<not> typeIsCondition H (dt R)
          then errorTypeExpected c2 (ast_o Node) ''condition'' else c2)
     }"
| "analyzerMemberBOP X ctx Node =
     do {
       Ln \<leftarrow> ast_l Node;
       (L, Ln', c1) \<leftarrow> analyzerValue X ctx Ln;
       let N1 = set_l Node Ln';
       let H = syms c1;
       let lv = (if isDerefBOP (ast_o Node) then True else lvalue L);
       if \<not> (typeIsRecord H (dt L)
              \<or> (case dt L of Ptr b \<Rightarrow> typeIsRecord H b | _ \<Rightarrow> False)) then
         finish N1 typeCreateInvalid lv
           (errorTypeExpected c1 (ast_o Node)
              (if isDerefBOP (ast_o Node) then ''structure or union pointer''
               else ''structure or union type''))
       else
         do {
           let c2 =
             (if isDerefBOP (ast_o Node) then
                (if \<not> typeIsPtr (dt L) then errorTypeExpected c1 (ast_o Node) ''pointer''
                 else c1)
              else
                (if typeIsPtr (dt L)
                 then errorTypeExpected c1 (ast_o Node) ''direct structure or union''
                 else c1));
           case typeGetRecordSym H (dt L) of
             Some recordSym \<Rightarrow>
               do {
                 Rn \<leftarrow> ast_r N1;
                 let N2 = set_symbol N1 (symChild H recordSym (literal Rn));
                 case ast_symbol N2 of
                   Some field \<Rightarrow>
                     do { T \<leftarrow> sym_dt (H field); finish N2 (typeDeepDuplicate T) lv c2 }
                 | None \<Rightarrow>
                     finish N2 typeCreateInvalid lv
                       (errorMember c2 (ast_o Node) (literal Rn) (dt L))
               }
           | None \<Rightarrow> finish N1 typeCreateInvalid lv c2
         }
     }"
| "analyzerCommaBOP X ctx Node =
     do {
       Ln \<leftarrow> ast_l Node;
       (L, Ln', c1) \<leftarrow> analyzerValue X ctx Ln;
       Rn \<leftarrow> ast_r Node;
       (R, Rn', c2) \<leftarrow> analyzerValue X c1 Rn;
       finish (set_r (set_l Node Ln') Rn') (typeDeepDuplicate (dt R)) (lvalue R) c2
     }"
| "analyzerUOP X ctx Node =
     do {
       Rn \<leftarrow> ast_r Node;
       (R, Rn', c1) \<leftarrow> analyzerValue X ctx Rn;
       let N1 = set_r Node Rn';
       let H = syms c1;
       let lv = (ast_o Node = ''*'');
       if ast_o Node \<in> {''+'', ''-'', ''++'', ''--'', ''~''} then
         (if \<not> typeIsNumeric H (dt R) then
            finish N1 typeCreateInvalid lv (errorTypeExpected c1 (ast_o Node) ''numeric type'')
          else
            finish N1 (typeDeriveFrom (dt R)) lv
              (if ast_o Node \<in> {''++'', ''--''} \<and> \<not> lvalue R
               then errorLvalue c1 (ast_o Node) else c1))
       else if ast_o Node = ''!'' then
         finish N1 (typeCreateBasic (types c1 builtinBool)) lv
           (if \<not> typeIsCondition H (dt R)
            then errorTypeExpected c1 (ast_o Node) ''condition'' else c1)
       else if ast_o Node = ''*'' then
         (if typeIsPtr (dt R) then
            do { T \<leftarrow> typeDeriveBase (dt R); finish N1 T lv c1 }
          else finish N1 typeCreateInvalid lv (errorTypeExpected c1 (ast_o Node) ''pointer''))
       else if ast_o Node = ''&'' then
         finish N1 (typeDerivePtr (dt R)) lv
           (if \<not> lvalue R then errorLvalue c1 (ast_o Node) else c1)
       else finish N1 typeCreateInvalid lv c1
     }"
| "analyzerTernary X ctx Node =
     (case firstChild Node of
        [] \<Rightarrow> None
      | Cn # siblings \<Rightarrow>
          do {
            (Cond, Cn', c1) \<leftarrow> analyzerValue X ctx Cn;
            Ln \<leftarrow> ast_l Node;
            (L, Ln', c2) \<leftarrow> analyzerValue X c1 Ln;
            Rn \<leftarrow> ast_r Node;
            (R, Rn', c3) \<leftarrow> analyzerValue X c2 Rn;
            let N1 = set_r (set_l (set_children Node (Cn' # siblings)) Ln') Rn';
            let H = syms c3;
            let c4 =
              (if \<not> typeIsCondition H (dt Cond)
               then errorTypeExpected c3 ''ternary ?:'' ''condition value'' else c3);
            compatible \<leftarrow> typeIsCompatible H (dt L) (dt R);
            if compatible then
              do {
                T \<leftarrow> typeDeriveUnified H (dt L) (dt R);
                finish N1 T (lvalue L \<and> lvalue R) c4
              }
            else
              finish N1 typeCreateInvalid (lvalue L \<and> lvalue R)
                (errorMismatch c4 ''ternary ?:'')
          })"
| "analyzerIndex X ctx Node =
     do {
       Ln \<leftarrow> ast_l Node;
       (L, Ln', c1) \<leftarrow> analyzerValue X ctx Ln;
       Rn \<leftarrow> ast_r Node;
       (R, Rn', c2) \<leftarrow> analyzerValue X c1 Rn;
       let N1 = set_r (set_l Node Ln') Rn';
       let H = syms c2;
       let c3 =
         (if \<not> typeIsNumeric H (dt R)
          then errorTypeExpected c2 ''[]'' ''numeric index'' else c2);
       if typeIsArray (dt L) \<or> typeIsPtr (dt L) then
         do { T \<leftarrow> typeDeriveBase (dt L); finish N1 T (lvalue L) c3 }
       else
         finish N1 typeCreateInvalid (lvalue L)
           (errorTypeExpected c3 ''[]'' ''array or pointer'')
     }"
| "analyzerCall X ctx Node =
     do {
       Ln \<leftarrow> ast_l Node;
       (L, Ln', c1) \<leftarrow> analyzerValue X ctx Ln;
       let N1 = set_l Node Ln';
       let H = syms c1;
       if \<not> typeIsCallable (dt L) then
         finish N1 typeCreateInvalid False (errorTypeExpected c1 ''()'' ''function'')
       else if typeIsInvalid (dt L) then finish N1 typeCreateInvalid False c1
       else
         do {
           T \<leftarrow> typeDeriveReturn (dt L);
           fn \<leftarrow> (if typeIsPtr (dt L) then base (dt L) else Some (dt L));
           if (if variadic X fn then params fn > children N1
               else params fn \<noteq> children N1) then
             finish N1 T False
               (errorDegree c1 ''parameter(s)'' (params fn) (children N1)
                  (case ast_symbol Ln' of Some s \<Rightarrow> ident (H s) | None \<Rightarrow> ''function''))
           else
             do {
               (arguments, c2) \<leftarrow>
                 analyzerCallParams X c1 (ast_symbol Ln') fn 0 (firstChild Node);
               finish (set_children N1 arguments) T False c2
             }
         }
     }"
| "analyzerCallParams X ctx callee fn n [] = analyzerCallRest X ctx []"
| "analyzerCallParams X ctx callee fn n (Current # siblings) =
     (if \<not> int n < params fn then analyzerCallRest X ctx (Current # siblings)
      else
        do {
          (Param, Current', c1) \<leftarrow> analyzerValue X ctx Current;
          compatible \<leftarrow> typeIsCompatible (syms c1) (dt Param) (paramTypes fn ! n);
          let c2 =
            (if \<not> compatible then
               (case callee of
                  Some s \<Rightarrow> errorNamedParamMismatch c1 n s (dt Param)
                | None \<Rightarrow> errorParamMismatch c1 n (paramTypes fn ! n) (dt Param))
             else c1);
          (arguments, c3) \<leftarrow> analyzerCallParams X c2 callee fn (Suc n) siblings;
          Some (Current' # arguments, c3)
        })"
| "analyzerCallRest X ctx [] = Some ([], ctx)"
| "analyzerCallRest X ctx (Current # siblings) =
     do {
       (Param, Current', c1) \<leftarrow> analyzerValue X ctx Current;
       (others, c2) \<leftarrow> analyzerCallRest X c1 siblings;
       Some (Current' # others, c2)
     }"
| "analyzerCast X ctx Node =
     do {
       Ln \<leftarrow> ast_l Node;
       let (L, Ln', c1) = analyzerType X ctx Ln;
       Rn \<leftarrow> ast_r Node;
       (R, Rn', c2) \<leftarrow> analyzerValue X c1 Rn;
       finish (set_r (set_l Node Ln') Rn') (typeDeepDuplicate L) (lvalue R) c2
     }"
| "analyzerSizeof X ctx Node =
     do {
       Rn \<leftarrow> ast_r Node;
       (Rn', c1) \<leftarrow>
         (if ast_tag Rn = astType then
            (let (T, Rn', c1) = analyzerType X ctx Rn in Some (Rn', c1))
          else do { (R, Rn', c1) \<leftarrow> analyzerValue X ctx Rn; Some (Rn', c1) });
       finish (set_r Node Rn') (typeCreateBasic (types c1 builtinInt)) False c1
     }"
| "analyzerCompoundLiteral X ctx Node =
     do {
       Ln \<leftarrow> ast_l Node;
       let (DT, Ln', c1) = analyzerType X ctx Ln;
       (V, N1, c2) \<leftarrow> analyzerInitOrCompoundLiteral X c1 Node DT;
       s \<leftarrow> ast_symbol N1;
       T \<leftarrow> ast_dt N1;
       let c3 = c2\<lparr>syms := (syms c2)(s := (syms c2 s)\<lparr>sym_dt := Some (typeDeepDuplicate T)\<rparr>)\<rparr>;
       Some (\<lparr>dt = T, lvalue = True\<rparr>, set_l N1 Ln', c3)
     }"
| "analyzerInitOrCompoundLiteral X ctx Node DT =
     (let N0 = set_dt Node (typeDeepDuplicate DT); H = syms ctx in
      if typeIsInvalid DT then Some (\<lparr>dt = typeDeepDuplicate DT, lvalue = False\<rparr>, N0, ctx)
      else if (case DT of Basic s \<Rightarrow> sym_tag (H s) = symStruct | _ \<Rightarrow> False) then
        do {
          structSym \<leftarrow> basic DT;
          if int (length (sym_children (H structSym))) \<noteq> children N0 then
            Some (\<lparr>dt = typeDeepDuplicate DT, lvalue = False\<rparr>, N0,
                  errorDegree ctx ''fields'' (int (length (sym_children (H structSym))))
                    (children N0) (ident (H structSym)))
          else
            do {
              (elements, c1) \<leftarrow>
                analyzerInitFields X ctx structSym (firstChild Node)
                  (sym_children (H structSym));
              Some (\<lparr>dt = typeDeepDuplicate DT, lvalue = False\<rparr>,
                    set_children N0 elements, c1)
            }
        }
      else if typeIsArray DT then
        do {
          let c0 =
            (if array DT \<noteq> - 1 \<and> array DT < children N0
             then errorDegree ctx ''elements'' (array DT) (children N0) ''array'' else ctx);
          elementType \<leftarrow> base DT;
          (elements, c1) \<leftarrow> analyzerInitElements X c0 elementType (firstChild Node);
          Some (\<lparr>dt = typeDeepDuplicate DT, lvalue = False\<rparr>, set_children N0 elements, c1)
        }
      else
        (if children N0 \<noteq> 1 then
           Some (\<lparr>dt = typeDeepDuplicate DT, lvalue = False\<rparr>, N0,
                 errorDegree ctx ''element'' 1 (children N0) ''scalar'')
         else
           (case firstChild Node of
              [] \<Rightarrow> None
            | Cn # siblings \<Rightarrow>
                do {
                  (R, Cn', c1) \<leftarrow> analyzerValue X ctx Cn;
                  compatible \<leftarrow> typeIsCompatible (syms c1) (dt R) DT;
                  Some (\<lparr>dt = typeDeepDuplicate DT, lvalue = False\<rparr>,
                        set_children N0 (Cn' # siblings),
                        if \<not> compatible
                        then errorTypeExpectedType c1 ''variable initialization'' DT
                        else c1)
                })))"
| "analyzerInitFields X ctx structSym [] nextFields = Some ([], ctx)"
| "analyzerInitFields X ctx structSym (current # siblings) [] =
     Some (current # siblings, ctx)"
| "analyzerInitFields X ctx structSym (current # siblings) (field # nextFields) =
     do {
       (V, current', c1) \<leftarrow>
         (if ast_tag current = astLiteral \<and> litTag current = literalInit then
            do {
              fieldType \<leftarrow> sym_dt (syms ctx field);
              analyzerInitOrCompoundLiteral X ctx current fieldType
            }
          else analyzerValue X ctx current);
       currentType \<leftarrow> ast_dt current';
       compatible \<leftarrow>
         (case sym_dt (syms c1 field) of
            Some fieldType \<Rightarrow> typeIsCompatible (syms c1) currentType fieldType
          | None \<Rightarrow> if typeIsInvalid currentType then Some True else None);
       let c2 = (if \<not> compatible then errorInitFieldMismatch c1 structSym field else c1);
       (elements, c3) \<leftarrow> analyzerInitFields X c2 structSym siblings nextFields;
       Some (current' # elements, c3)
     }"
| "analyzerInitElements X ctx elementType [] = Some ([], ctx)"
| "analyzerInitElements X ctx elementType (curNode # siblings) =
     do {
       (curValue, curNode', c1) \<leftarrow>
         (if ast_tag curNode = astLiteral \<and> litTag curNode = literalInit then
            analyzerInitOrCompoundLiteral X ctx curNode elementType
          else analyzerValue X ctx curNode);
       compatible \<leftarrow> typeIsCompatible (syms c1) (dt curValue) elementType;
       let c2 =
         (if \<not> compatible
          then errorTypeExpectedType c1 ''array initialization'' elementType else c1);
       (elements, c3) \<leftarrow> analyzerInitElements X c2 elementType siblings;
       Some (curNode' # elements, c3)
     }"
  by pat_completeness auto
termination
  by (relation "measure
      (case_sum
        (case_sum
          (case_sum
            (case_sum
              (\<lambda>(X, ctx, Node). 3 * size Node + 2)
              (\<lambda>(X, ctx, Node). 3 * size Node + 1))
            (case_sum
              (\<lambda>(X, ctx, Node). 3 * size Node + 1)
              (\<lambda>(X, ctx, Node). 3 * size Node + 1)))
          (case_sum
            (case_sum
              (\<lambda>(X, ctx, Node). 3 * size Node + 1)
              (\<lambda>(X, ctx, Node). 3 * size Node + 1))
            (case_sum
              (\<lambda>(X, ctx, Node). 3 * size Node + 1)
              (case_sum
                (\<lambda>(X, ctx, Node). 3 * size Node + 1)
                (\<lambda>(X, ctx, Node). 3 * size Node + 1)))))
        (case_sum
          (case_sum
            (case_sum
              (\<lambda>(X, ctx, Node). 3 * size Node + 1)
              (\<lambda>(X, ctx, callee, fn, n, cs). 3 * size_list size cs + 1))
            (case_sum
              (\<lambda>(X, ctx, cs). 3 * size_list size cs)
              (\<lambda>(X, ctx, Node). 3 * size Node + 1)))
          (case_sum
            (case_sum
              (\<lambda>(X, ctx, Node). 3 * size Node + 1)
              (\<lambda>(X, ctx, Node). 3 * size Node + 1))
            (case_sum
              (\<lambda>(X, ctx, Node, DT). 3 * size Node)
              (case_sum
                (\<lambda>(X, ctx, structSym, cs, fs). 3 * size_list size cs)
                (\<lambda>(X, ctx, elementType, cs). 3 * size_list size cs))))))")
    (auto dest: ast_l_size ast_r_size firstChild_hd_size
          simp: firstChild_size firstChild_size3 less_Suc_eq_le less_imp_le [OF firstChild_size])

declare analyzerValue.simps [simp del] analyzerBOP.simps [simp del]
  analyzerComparisonBOP.simps [simp del] analyzerLogicalBOP.simps [simp del]
  analyzerMemberBOP.simps [simp del] analyzerCommaBOP.simps [simp del]
  analyzerUOP.simps [simp del] analyzerTernary.simps [simp del]
  analyzerIndex.simps [simp del] analyzerCall.simps [simp del]
  analyzerCast.simps [simp del] analyzerSizeof.simps [simp del]
  analyzerCompoundLiteral.simps [simp del] analyzerInitOrCompoundLiteral.simps [simp del]

text \<open>
  The nodes that \<open>analyzerValue\<close> answers itself: the tag \<open>astInvalid\<close>, a tag that
  none of its branches handles, and a binary operator whose spelling is in none of
  the operator classes.
\<close>

definition isErrorNode :: "ast \<Rightarrow> bool" where
  "isErrorNode Node \<longleftrightarrow>
     ast_tag Node = astInvalid
     \<or> ast_tag Node \<notin> {astBOP, astUOP, astTOP, astIndex, astCall, astCast, astSizeof, astLiteral}
     \<or> (ast_tag Node = astBOP \<and> \<not> isNumericBOP (ast_o Node) \<and> \<not> isAssignmentBOP (ast_o Node)
        \<and> \<not> isOrdinalBOP (ast_o Node) \<and> \<not> isEqualityBOP (ast_o Node)
        \<and> \<not> isLogicalBOP (ast_o Node) \<and> \<not> isMemberBOP (ast_o Node)
        \<and> \<not> isCommaBOP (ast_o Node))"

text \<open>The diagnostics that \<open>errorLvalue\<close> reports.\<close>

definition isLvalueDiag :: "diag \<Rightarrow> bool" where
  "isLvalueDiag d = (case d of Lvalue opr \<Rightarrow> True | _ \<Rightarrow> False)"

text \<open>
  A result that returned has written the derived type into the node, the one its
  \<open>valueResult\<close> points to.
\<close>

definition resultTyped :: "result \<Rightarrow> bool" where
  "resultTyped res = (case res of None \<Rightarrow> True | Some (v, n, c) \<Rightarrow> ast_dt n = Some (dt v))"

section \<open>Example symbols, context and nodes\<close>

text \<open>
  A small symbol store for the concrete instances below: at address 0 the builtin
  \<open>void\<close>, at 1 \<open>bool\<close>, at 2 \<open>char\<close>, at 3 \<open>int\<close>, at 4 a \<open>struct S\<close> with the fields
  \<open>a\<close> (address 5) and \<open>b\<close> (address 6), both of type \<open>int\<close>, at 7 a function
  \<open>f\<close> of type \<open>int (int, int)\<close>, and at any other address a variable \<open>s\<close> of
  type \<open>struct S\<close>.
\<close>

definition allBits :: "typeMaskBit set" where
  "allBits = {typeNumeric, typeOrdinal, typeEquality, typeAssignment, typeCondition}"

definition exSyms :: symstore where
  "exSyms a =
     (if a = 0 then \<lparr>sym_tag = symType, ident = ''void'', sym_dt = None, typeMask = {},
                     sym_size = 0, sym_children = []\<rparr>
      else if a = 1 then \<lparr>sym_tag = symType, ident = ''bool'', sym_dt = None,
                     typeMask = {typeEquality, typeAssignment, typeCondition},
                     sym_size = 1, sym_children = []\<rparr>
      else if a = 2 then \<lparr>sym_tag = symType, ident = ''char'', sym_dt = None,
                     typeMask = allBits, sym_size = 1, sym_children = []\<rparr>
      else if a = 3 then \<lparr>sym_tag = symType, ident = ''int'', sym_dt = None,
                     typeMask = allBits, sym_size = 8, sym_children = []\<rparr>
      else if a = 4 then \<lparr>sym_tag = symStruct, ident = ''S'', sym_dt = None,
                     typeMask = {typeAssignment}, sym_size = 16, sym_children = [5, 6]\<rparr>
      else if a = 5 then \<lparr>sym_tag = symId, ident = ''a'', sym_dt = Some (Basic 3),
                     typeMask = {}, sym_size = 0, sym_children = []\<rparr>
      else if a = 6 then \<lparr>sym_tag = symId, ident = ''b'', sym_dt = Some (Basic 3),
                     typeMask = {}, sym_size = 0, sym_children = []\<rparr>
      else if a = 7 then \<lparr>sym_tag = symId, ident = ''f'',
                     sym_dt = Some (Function (Basic 3) [Basic 3, Basic 3]),
                     typeMask = {}, sym_size = 0, sym_children = []\<rparr>
      else \<lparr>sym_tag = symId, ident = ''s'', sym_dt = Some (Basic 4),
             typeMask = {}, sym_size = 0, sym_children = []\<rparr>)"

fun exTypes :: "builtinType \<Rightarrow> symref" where
  "exTypes builtinVoid = 0"
| "exTypes builtinBool = 1"
| "exTypes builtinChar = 2"
| "exTypes builtinInt = 3"

definition exCtx :: analyzerCtx where
  "exCtx = \<lparr>types = exTypes, diags = [], syms = exSyms\<rparr>"

text \<open>No type expression occurs in the examples, and no function type is variadic.\<close>

definition exX :: externals where
  "exX = \<lparr>analyzerType = (\<lambda>ctx Node. (Invalid, Node, ctx)), variadic = (\<lambda>DT. False)\<rparr>"

definition exLeaf :: "astTag \<Rightarrow> literalTag \<Rightarrow> string \<Rightarrow> symref option \<Rightarrow> ast" where
  "exLeaf tg lt name s = Ast tg lt [] name None s None None []"

text \<open>
  \<open>exOne\<close> is the literal \<open>1\<close>; \<open>exDeref\<close> is \<open>*1\<close>, which the analyzer answers with
  the diagnostic that \<open>*\<close> expects a pointer; \<open>exF\<close> and \<open>exS\<close> are the identifiers \<open>f\<close>
  and \<open>s\<close>.
\<close>

definition exOne :: ast where
  "exOne = exLeaf astLiteral literalInt ''1'' None"

definition exDeref :: ast where
  "exDeref = Ast astUOP literalUndefined ''*'' [] None None None (Some exOne) []"

definition exF :: ast where
  "exF = exLeaf astLiteral literalIdent ''f'' (Some 7)"

definition exS :: ast where
  "exS = exLeaf astLiteral literalIdent ''s'' (Some 8)"

text \<open>
  \<open>exCall\<close> is the call \<open>f(*1)\<close>, one argument for two parameters; \<open>exArrow\<close> is
  \<open>s->a\<close> and \<open>exDot\<close> is \<open>1.a\<close>; \<open>exBad\<close> is a node of tag \<open>astInvalid\<close>,
  \<open>exAddrBad\<close> takes its address and \<open>exAssignBad\<close> assigns \<open>1\<close> to it; \<open>exInit\<close> is
  a brace initializer with the given elements.
\<close>

definition exCall :: ast where
  "exCall = Ast astCall literalUndefined [] [] None None (Some exF) None [exDeref]"

definition exArrow :: ast where
  "exArrow = Ast astBOP literalUndefined ''->'' [] None None (Some exS)
               (Some (exLeaf astLiteral literalIdent ''a'' None)) []"

definition exDot :: ast where
  "exDot = Ast astBOP literalUndefined ''.'' [] None None (Some exOne)
             (Some (exLeaf astLiteral literalIdent ''a'' None)) []"

definition exBad :: ast where
  "exBad = exLeaf astInvalid literalUndefined [] None"

definition exAddrBad :: ast where
  "exAddrBad = Ast astUOP literalUndefined ''&'' [] None None None (Some exBad) []"

definition exAssignBad :: ast where
  "exAssignBad = Ast astBOP literalUndefined ''='' [] None None (Some exBad) (Some exOne) []"

definition exInit :: "ast list \<Rightarrow> ast" where
  "exInit elements = Ast astLiteral literalInit [] [] None None None None elements"

text \<open>Readers of a result, for stating what a run left behind.\<close>

definition resultDiags :: "result \<Rightarrow> diag list option" where
  "resultDiags res = map_option (\<lambda>(v, n, c). diags c) res"

definition resultNode :: "result \<Rightarrow> ast option" where
  "resultNode res = map_option (\<lambda>(v, n, c). n) res"

definition resultValue :: "result \<Rightarrow> valueResult option" where
  "resultValue res = map_option (\<lambda>(v, n, c). v) res"

section \<open>Properties of the type algebra\<close>

lemma typeDeepDuplicate_id: "typeDeepDuplicate t = t"
  by (induction t)
     (simp_all add: typeCreateInvalid_def typeCreateBasic_def typeCreatePtr_def
        typeCreateArray_def typeCreateFunction_def map_idI)

lemma typeIsEqualParams_refl:
  "(\<And>p. p \<in> set ps \<Longrightarrow> typeIsEqual H p p = Some True) \<Longrightarrow>
     typeIsEqualParams H ps ps = Some True"
  by (induction ps) simp_all

lemma typeIsEqual_Compatible_refl:
  "typeIsEqual H t t = Some True \<and> typeIsCompatible H t t = Some True"
proof (induction t)
  case (Basic s)
  show ?case
    by (simp add: typeIsEqual.simps typeIsCompatible.simps typeIsInvalid_def
          typeIsFunction_def typeIsPtr_def typeIsArray_def)
next
  case (Ptr b)
  then show ?case
    by (simp add: typeIsEqual.simps [of H "Ptr b"] typeIsCompatible.simps [of H "Ptr b"]
          typeIsInvalid_def typeIsFunction_def typeIsPtr_def typeIsArray_def)
next
  case (Array b n)
  then show ?case
    by (simp add: typeIsEqual.simps [of H "Array b n"]
          typeIsCompatible.simps [of H "Array b n"]
          typeIsInvalid_def typeIsFunction_def typeIsPtr_def typeIsArray_def)
next
  case (Function r ps)
  then have ps: "typeIsEqualParams H ps ps = Some True"
    by (intro typeIsEqualParams_refl) simp
  have compat: "typeIsCompatible H (Function r ps) (Function r ps) = Some True"
    using Function.IH(1) ps
    by (simp add: typeIsCompatible.simps [of H "Function r ps"]
          typeIsInvalid_def typeIsFunction_def params_def)
  then show ?case
    by (simp add: typeIsEqual.simps [of H "Function r ps"]
          typeIsInvalid_def typeIsFunction_def)
next
  case Invalid
  show ?case
    by (simp add: typeIsEqual.simps typeIsCompatible.simps typeIsInvalid_def)
qed


text \<open>
  C1, as the code has it. \<open>typeDeriveFrom\<close>, \<open>typeDeriveFromTwo\<close>, \<open>typeDeriveUnified\<close>,
  \<open>typeDeriveBase\<close> and \<open>typeDeriveReturn\<close> return the Invalid type as soon as one of
  their inputs is Invalid. \<open>typeDerivePtr\<close> has no such test: from the Invalid type it
  builds a pointer whose base is Invalid.
\<close>

theorem derive_invalid_absorbs:
  "(typeIsInvalid DT \<longrightarrow>
      typeDeriveFrom DT = typeCreateInvalid \<and>
      typeDeriveBase DT = Some typeCreateInvalid \<and>
      typeDeriveReturn DT = Some typeCreateInvalid \<and>
      typeDerivePtr DT = typeCreatePtr typeCreateInvalid) \<and>
   (typeIsInvalid L \<or> typeIsInvalid R \<longrightarrow>
      typeDeriveFromTwo H L R = Some typeCreateInvalid \<and>
      typeDeriveUnified H L R = Some typeCreateInvalid)"
proof -
  have "DT = Invalid" if "typeIsInvalid DT"
    using that by (cases DT) (simp_all add: typeIsInvalid_def)
  then show ?thesis
    by (auto simp: typeDeriveFrom_def typeDeriveBase_def typeDerivePtr_def
          typeDeriveFromTwo_def typeDeriveUnified_def typeDeriveReturn.simps
          typeCreateInvalid_def typeIsInvalid_def)
qed

theorem derive_invalid_absorbs_witness:
  "typeIsInvalid Invalid \<and> (typeIsInvalid (Basic 3) \<or> typeIsInvalid Invalid) \<and>
   typeDeriveFrom Invalid = Invalid \<and>
   typeDeriveBase Invalid = Some Invalid \<and>
   typeDeriveReturn Invalid = Some Invalid \<and>
   typeDerivePtr Invalid = Ptr Invalid \<and>
   typeDeriveFromTwo exSyms (Basic 3) Invalid = Some Invalid \<and>
   typeDeriveUnified exSyms (Basic 3) Invalid = Some Invalid"
  using derive_invalid_absorbs [of Invalid "Basic 3" Invalid exSyms]
  by (simp add: typeIsInvalid_def typeCreateInvalid_def typeCreatePtr_def)

text \<open>
  C1, as the claim states it, fails for \<open>typeDerivePtr\<close>: the pointer derived from the
  Invalid type is not the Invalid type.
\<close>

theorem derive_pointer_invalid_counterexample:
  "\<not> typeIsInvalid (typeDerivePtr typeCreateInvalid) \<and>
   typeDerivePtr typeCreateInvalid \<noteq> typeCreateInvalid"
  by (simp add: typeDerivePtr_def typeCreatePtr_def typeCreateInvalid_def typeIsInvalid_def)

text \<open>
  C3. Compatibility is reflexive: a type that is not Invalid is compatible with itself.
\<close>

theorem typeIsCompatible_reflexive:
  "\<not> typeIsInvalid t \<Longrightarrow> typeIsCompatible H t t = Some True"
proof -
  have "typeIsEqual H t t = Some True \<and> typeIsCompatible H t t = Some True"
    by (rule typeIsEqual_Compatible_refl)
  then show ?thesis by (rule conjunct2)
qed

theorem typeIsCompatible_reflexive_witness:
  "\<not> typeIsInvalid (Function (Ptr (Basic 3)) [Array (Basic 4) 3, Basic 2]) \<and>
   typeIsCompatible exSyms (Function (Ptr (Basic 3)) [Array (Basic 4) 3, Basic 2])
     (Function (Ptr (Basic 3)) [Array (Basic 4) 3, Basic 2]) = Some True"
  using typeIsCompatible_reflexive
          [of "Function (Ptr (Basic 3)) [Array (Basic 4) 3, Basic 2]" exSyms]
  by (simp add: typeIsInvalid_def)

text \<open>
  C5. Each of the twelve classification predicates answers true on the Invalid type.
\<close>

theorem classification_accepts_invalid:
  "typeIsNumeric H typeCreateInvalid \<and> typeIsOrdinal H typeCreateInvalid \<and>
   typeIsEquality H typeCreateInvalid \<and> typeIsAssignment H typeCreateInvalid \<and>
   typeIsCondition H typeCreateInvalid \<and> typeIsPtr typeCreateInvalid \<and>
   typeIsArray typeCreateInvalid \<and> typeIsBasic typeCreateInvalid \<and>
   typeIsFunction typeCreateInvalid \<and> typeIsCallable typeCreateInvalid \<and>
   typeIsRecord H typeCreateInvalid \<and> typeIsVoid H typeCreateInvalid"
  by (simp add: typeCreateInvalid_def typeIsInvalid_def typeIsNumeric_def typeIsOrdinal_def
        typeIsEquality_def typeIsAssignment_def typeIsCondition_def typeIsPtr_def
        typeIsArray_def typeIsBasic_def typeIsFunction_def typeIsCallable_def
        typeIsRecord_def typeIsVoid_def)

text \<open>
  C6, as the code has it. For two arrays whose element types are compatible, the actual
  is compatible with the model exactly when the sizes are equal or the size of the
  model is -1. The size of the actual being -1 does not help.
\<close>

theorem array_compatible_sizes:
  "typeIsCompatible H db mb = Some True \<Longrightarrow>
   typeIsCompatible H (typeCreateArray db n) (typeCreateArray mb m)
     = Some (n = m \<or> m = - 1)"
  by (simp add: typeIsCompatible.simps [of H "Array db n"] typeCreateArray_def
        typeIsInvalid_def typeIsFunction_def typeIsPtr_def typeIsArray_def)

theorem array_compatible_sizes_witness:
  "typeIsCompatible exSyms (Basic 3) (Basic 3) = Some True \<and>
   typeIsCompatible exSyms (Array (Basic 3) 5) (Array (Basic 3) (- 1)) = Some True \<and>
   typeIsCompatible exSyms (Array (Basic 3) 5) (Array (Basic 3) 4) = Some False"
  using array_compatible_sizes [of exSyms "Basic 3" "Basic 3" 5 "- 1"]
    array_compatible_sizes [of exSyms "Basic 3" "Basic 3" 5 4]
  by (simp add: typeIsCompatible.simps [of exSyms "Basic 3"] typeCreateArray_def
        typeIsInvalid_def typeIsFunction_def typeIsPtr_def typeIsArray_def)

text \<open>
  C6, as the claim states it, fails when the array of unspecified size is the actual:
  \<open>int[]\<close> is not compatible with the model \<open>int[3]\<close>, although the element types are
  compatible.
\<close>

theorem array_unspecified_actual_counterexample:
  "typeIsCompatible exSyms (Basic 3) (Basic 3) = Some True \<and>
   typeIsCompatible exSyms (Array (Basic 3) (- 1)) (Array (Basic 3) 3) = Some False"
  by (simp add: typeIsCompatible.simps [of exSyms "Array (Basic 3) (- 1)"]
        typeIsCompatible.simps [of exSyms "Basic 3"]
        typeIsInvalid_def typeIsFunction_def typeIsPtr_def typeIsArray_def)

text \<open>
  C7. With the model \<open>int (void)\<close>, a function type of no parameter, and the actual
  \<open>int\<close>, the parameter counts are both 0, the loop is empty, and \<open>typeIsCompatible\<close>
  hands \<open>DT->returnType\<close>, a null pointer, to \<open>typeIsEqual\<close>, which reads its tag: the
  call does not return false.
\<close>

theorem zero_param_model_basic_actual:
  "typeIsCompatible exSyms (typeCreateBasic 3) (typeCreateFunction (typeCreateBasic 3) [])
     = None"
  by (simp add: typeIsCompatible.simps typeCreateBasic_def typeCreateFunction_def
        typeIsInvalid_def typeIsFunction_def params_def)

lemma zero_param_model_null_read:
  "\<not> typeIsInvalid DT \<Longrightarrow> tag DT \<noteq> typeFunction \<Longrightarrow>
     typeIsCompatible H DT (Function mr []) = None"
  by (cases DT)
     (simp_all add: typeIsCompatible.simps [of H _ "Function mr []"] typeIsInvalid_def
        typeIsFunction_def params_def)

lemma zero_param_model_function_actual:
  "typeIsCompatible H (Function dr dps) (Function mr []) =
     (if dps \<noteq> [] then Some False else typeIsEqual H dr mr)"
  by (cases dps)
     (simp_all add: typeIsCompatible.simps [of H _ "Function mr []"] typeIsInvalid_def
        typeIsFunction_def params_def)

text \<open>
  C8. The deep duplicate of a type is the same tree as the type: it has the same
  constructor, symbol and size at every place. So it is equal to the type, on either
  side of \<open>typeIsEqual\<close>.
\<close>

theorem typeDeepDuplicate_equal:
  "typeDeepDuplicate t = t \<and>
   typeIsEqual H (typeDeepDuplicate t) t = Some True \<and>
   typeIsEqual H t (typeDeepDuplicate t) = Some True"
proof -
  have copy: "typeDeepDuplicate t = t"
    by (rule typeDeepDuplicate_id)
  have "typeIsEqual H t t = Some True"
    using typeIsEqual_Compatible_refl [of H t] by (rule conjunct1)
  with copy show ?thesis by simp
qed

section \<open>Properties of the analyzer\<close>

lemmas analyzer_simps = analyzerValue.simps analyzerBOP.simps
  analyzerComparisonBOP.simps analyzerLogicalBOP.simps
  analyzerMemberBOP.simps analyzerCommaBOP.simps
  analyzerUOP.simps analyzerTernary.simps
  analyzerIndex.simps analyzerCall.simps
  analyzerCast.simps analyzerSizeof.simps
  analyzerCompoundLiteral.simps analyzerInitOrCompoundLiteral.simps

lemmas type_defs = typeIsInvalid_def typeIsBasic_def typeIsPtr_def typeIsArray_def typeIsFunction_def
  typeIsVoid_def typeIsRecord_def typeIsCallable_def typeHasBit_def typeIsNumeric_def typeIsOrdinal_def
  typeIsEquality_def typeIsAssignment_def typeIsCondition_def
  typeCreateInvalid_def typeCreateBasic_def typeCreatePtr_def typeCreateArray_def typeCreateFunction_def
  typeDeriveFrom_def typeDeriveFromTwo_def typeDeriveUnified_def typeDeriveBase_def typeDerivePtr_def

lemmas op_defs = isNumericBOP_def isOrdinalBOP_def isEqualityBOP_def isAssignmentBOP_def
  isLogicalBOP_def isMemberBOP_def isDerefBOP_def isCommaBOP_def

lemmas err_defs = report_def errorTypeExpected_def errorTypeExpectedType_def errorLvalue_def
  errorMismatch_def errorDegree_def errorParamMismatch_def errorNamedParamMismatch_def
  errorMember_def errorInitFieldMismatch_def errorIllegalSymAsValue_def

lemmas ex_defs = exCtx_def exX_def exLeaf_def exOne_def exDeref_def exF_def exS_def exSyms_def
  exCall_def exArrow_def exDot_def exBad_def exAddrBad_def exAssignBad_def exInit_def

lemma children_set_l [simp]: "children (set_l n x) = children n"
  by (cases n) (simp add: children_def)

lemma firstChild_set_l [simp]: "firstChild (set_l n x) = firstChild n"
  by (cases n) simp

lemma ast_r_set_l [simp]: "ast_r (set_l n x) = ast_r n"
  by (cases n) simp

lemma children_set_dt [simp]: "children (set_dt n T) = children n"
  by (simp add: children_def)

lemma typeDeriveReturn_callable:
  "typeIsCallable DT \<Longrightarrow> \<not> typeIsInvalid DT \<Longrightarrow> \<exists>T. typeDeriveReturn DT = Some T"
proof (cases DT)
  case (Ptr b)
  assume "typeIsCallable DT"
  with Ptr have "typeIsFunction b"
    by (simp add: typeIsCallable_def typeIsFunction_def typeIsInvalid_def)
  then have "\<exists>T. typeDeriveReturn b = Some T"
    by (cases b) (simp_all add: typeDeriveReturn.simps typeIsFunction_def typeIsInvalid_def typeIsPtr_def)
  with Ptr show ?thesis
    by (simp add: typeDeriveReturn.simps [of "Ptr b"] typeIsInvalid_def typeIsPtr_def)
qed (simp_all add: typeDeriveReturn.simps typeIsCallable_def typeIsFunction_def typeIsInvalid_def typeIsPtr_def)

text \<open>
  C2, as the code has it. When the callee is callable, not Invalid and not variadic, and
  the number of arguments differs from the number of parameters, \<open>analyzerCall\<close>
  reports one arity diagnostic after those of the callee and returns: the type of the
  node is the derived return type, and the arguments are left as they were, none of
  them visited.
\<close>

theorem analyzerCall_arity_mismatch:
  assumes "ast_l Node = Some Ln"
    and "analyzerValue X ctx Ln = Some (L, Ln', c1)"
    and "typeIsCallable (dt L)" and "\<not> typeIsInvalid (dt L)"
    and "(if typeIsPtr (dt L) then base (dt L) else Some (dt L)) = Some fn"
    and "\<not> variadic X fn"
    and "params fn \<noteq> children Node"
  shows "\<exists>T. typeDeriveReturn (dt L) = Some T \<and>
    analyzerCall X ctx Node =
      Some (\<lparr>dt = T, lvalue = False\<rparr>, set_dt (set_l Node Ln') T,
            errorDegree c1 ''parameter(s)'' (params fn) (children Node)
              (case ast_symbol Ln' of Some s \<Rightarrow> ident (syms c1 s) | None \<Rightarrow> ''function'')) \<and>
    firstChild (set_dt (set_l Node Ln') T) = firstChild Node \<and>
    diags (errorDegree c1 ''parameter(s)'' (params fn) (children Node)
              (case ast_symbol Ln' of Some s \<Rightarrow> ident (syms c1 s) | None \<Rightarrow> ''function''))
      = diags c1 @ [Degree ''parameter(s)'' (params fn) (children Node)
              (case ast_symbol Ln' of Some s \<Rightarrow> ident (syms c1 s) | None \<Rightarrow> ''function'')]"
proof -
  obtain T where T: "typeDeriveReturn (dt L) = Some T"
    using typeDeriveReturn_callable assms(3,4) by blast
  have "analyzerCall X ctx Node =
      Some (\<lparr>dt = T, lvalue = False\<rparr>, set_dt (set_l Node Ln') T,
            errorDegree c1 ''parameter(s)'' (params fn) (children Node)
              (case ast_symbol Ln' of Some s \<Rightarrow> ident (syms c1 s) | None \<Rightarrow> ''function''))"
    using assms T by (simp add: analyzerCall.simps finish_def)
  with T show ?thesis
    by (simp add: errorDegree_def report_def)
qed

theorem analyzerCall_arity_mismatch_witness:
  "ast_l exCall = Some exF \<and>
   analyzerValue exX exCtx exF =
     Some (\<lparr>dt = Function (Basic 3) [Basic 3, Basic 3], lvalue = True\<rparr>,
           set_dt exF (Function (Basic 3) [Basic 3, Basic 3]), exCtx) \<and>
   typeIsCallable (Function (Basic 3) [Basic 3, Basic 3]) \<and>
   \<not> typeIsInvalid (Function (Basic 3) [Basic 3, Basic 3]) \<and>
   \<not> variadic exX (Function (Basic 3) [Basic 3, Basic 3]) \<and>
   params (Function (Basic 3) [Basic 3, Basic 3]) \<noteq> children exCall \<and>
   analyzerCall exX exCtx exCall =
     Some (\<lparr>dt = Basic 3, lvalue = False\<rparr>,
           set_dt (set_l exCall (set_dt exF (Function (Basic 3) [Basic 3, Basic 3]))) (Basic 3),
           errorDegree exCtx ''parameter(s)'' 2 1 ''f'')"
  using analyzerCall_arity_mismatch
    [of exCall exF exX exCtx "\<lparr>dt = Function (Basic 3) [Basic 3, Basic 3], lvalue = True\<rparr>"
        "set_dt exF (Function (Basic 3) [Basic 3, Basic 3])" exCtx
        "Function (Basic 3) [Basic 3, Basic 3]"]
  by (simp add: analyzerValue.simps analyzerLiteral_def finish_def type_defs ex_defs
        typeDeriveReturn.simps params_def children_def)

text \<open>
  C2, as the claim states it, fails: in \<open>f(*1)\<close>, with \<open>f\<close> of two parameters, the
  argument \<open>*1\<close> on its own gets the diagnostic that \<open>*\<close> expects a pointer, but
  the call reports the arity diagnostic only and leaves the argument without a type.
\<close>

theorem analyzerCall_skips_arguments_counterexample:
  "\<not> variadic exX (Function (Basic 3) [Basic 3, Basic 3]) \<and>
   resultDiags (analyzerValue exX exCtx exDeref) = Some [TypeExpected ''*'' ''pointer''] \<and>
   resultDiags (analyzerValue exX exCtx exCall) = Some [Degree ''parameter(s)'' 2 1 ''f''] \<and>
   map_option firstChild (resultNode (analyzerValue exX exCtx exCall)) = Some [exDeref] \<and>
   ast_dt exDeref = None"
  by (simp add: analyzer_simps analyzerLiteral_def finish_def type_defs err_defs ex_defs
        resultDiags_def resultNode_def typeDeriveReturn.simps params_def children_def)

lemma member_not_others:
  "isMemberBOP opr \<Longrightarrow>
     \<not> isNumericBOP opr \<and> \<not> isAssignmentBOP opr \<and> \<not> isOrdinalBOP opr \<and>
     \<not> isEqualityBOP opr \<and> \<not> isLogicalBOP opr"
  unfolding op_defs by fastforce

lemma analyzerValue_member:
  "ast_tag Node = astBOP \<Longrightarrow> isMemberBOP (ast_o Node) \<Longrightarrow>
     analyzerValue X ctx Node = analyzerMemberBOP X ctx Node"
  by (simp add: analyzerValue.simps member_not_others)

text \<open>
  C4, as the code has it. For a member access whose operand is neither a record nor a
  pointer to a record, the analyzer reports the structure or union (pointer)
  diagnostic and the type of the node is Invalid.
\<close>

theorem analyzerMemberBOP_shape_failure:
  assumes "ast_tag Node = astBOP" and "isMemberBOP (ast_o Node)"
    and "ast_l Node = Some Ln"
    and "analyzerValue X ctx Ln = Some (L, Ln', c1)"
    and "\<not> typeIsRecord (syms c1) (dt L)"
    and "\<not> (case dt L of Ptr b \<Rightarrow> typeIsRecord (syms c1) b | _ \<Rightarrow> False)"
  shows "analyzerValue X ctx Node =
      Some (\<lparr>dt = typeCreateInvalid,
             lvalue = (if isDerefBOP (ast_o Node) then True else lvalue L)\<rparr>,
            set_dt (set_l Node Ln') typeCreateInvalid,
            errorTypeExpected c1 (ast_o Node)
              (if isDerefBOP (ast_o Node) then ''structure or union pointer''
               else ''structure or union type''))"
  using assms(3-6)
  by (simp add: analyzerValue_member [OF assms(1,2)] analyzerMemberBOP.simps finish_def)

theorem analyzerMemberBOP_shape_failure_witness:
  "ast_tag exDot = astBOP \<and> isMemberBOP (ast_o exDot) \<and> ast_l exDot = Some exOne \<and>
   analyzerValue exX exCtx exOne =
     Some (\<lparr>dt = Basic 3, lvalue = False\<rparr>, set_dt exOne (Basic 3), exCtx) \<and>
   \<not> typeIsRecord (syms exCtx) (Basic 3) \<and>
   analyzerValue exX exCtx exDot =
     Some (\<lparr>dt = Invalid, lvalue = False\<rparr>,
           set_dt (set_l exDot (set_dt exOne (Basic 3))) Invalid,
           errorTypeExpected exCtx ''.'' ''structure or union type'')"
  using analyzerMemberBOP_shape_failure
    [of exDot exOne exX exCtx "\<lparr>dt = Basic 3, lvalue = False\<rparr>" "set_dt exOne (Basic 3)" exCtx]
  by (simp add: analyzerValue.simps analyzerLiteral_def finish_def
        type_defs ex_defs op_defs)

text \<open>
  C4, as the claim states it, fails when the operand is a record at the other level of
  indirection: for \<open>s->a\<close> with \<open>s\<close> a direct record, the analyzer reports that \<open>->\<close>
  expects a pointer, finds the member and gives the node the type of the member.
\<close>

theorem analyzerMemberBOP_arrow_on_record_counterexample:
  "map_option dt (resultValue (analyzerValue exX exCtx exS)) = Some (Basic 4) \<and>
   typeIsRecord exSyms (Basic 4) \<and> \<not> typeIsPtr (Basic 4) \<and>
   resultDiags (analyzerValue exX exCtx exArrow) = Some [TypeExpected ''->'' ''pointer''] \<and>
   map_option dt (resultValue (analyzerValue exX exCtx exArrow)) = Some (Basic 3)"
  by (simp add: analyzer_simps analyzerLiteral_def finish_def type_defs err_defs ex_defs op_defs
        resultDiags_def resultValue_def typeGetRecordSym_def symChild_def)

lemma analyzerValue_isErrorNode:
  assumes "isErrorNode Node"
  shows "analyzerValue X ctx Node =
     Some (\<lparr>dt = typeCreateInvalid, lvalue = True\<rparr>, set_dt Node typeCreateInvalid, ctx)"
proof -
  consider "ast_tag Node = astBOP" "\<not> isNumericBOP (ast_o Node)" "\<not> isAssignmentBOP (ast_o Node)"
      "\<not> isOrdinalBOP (ast_o Node)" "\<not> isEqualityBOP (ast_o Node)"
      "\<not> isLogicalBOP (ast_o Node)" "\<not> isMemberBOP (ast_o Node)" "\<not> isCommaBOP (ast_o Node)"
    | "ast_tag Node \<notin> {astBOP, astUOP, astTOP, astIndex, astCall, astCast, astSizeof, astLiteral}"
    using assms unfolding isErrorNode_def by auto
  then show ?thesis
  proof cases
    case 1
    then show ?thesis by (simp add: analyzerValue.simps finish_def)
  next
    case 2
    then show ?thesis by (simp add: analyzerValue.simps finish_def)
  qed
qed


lemma filter_isLvalueDiag_TypeExpected [simp]:
  "filter isLvalueDiag (diags (errorTypeExpected c w e)) = filter isLvalueDiag (diags c)"
  by (simp add: errorTypeExpected_def report_def isLvalueDiag_def)

lemma resultDiags_finish [simp]: "resultDiags (finish n T lv c) = Some (diags c)"
  by (simp add: resultDiags_def finish_def)

lemma typeIsCompatible_Invalid_left: "typeIsCompatible H Invalid R = Some True"
  by (simp add: typeIsCompatible.simps typeIsInvalid_def)

text \<open>
  C9. On a node of tag \<open>astInvalid\<close>, of a tag it does not handle, or on a binary
  operator of unknown spelling, \<open>analyzerValue\<close> reports nothing and returns the
  Invalid type with the l-value flag set. Where an l-value is required, such an
  operand passes: \<open>++\<close>, \<open>--\<close> and \<open>&\<close> applied to it report nothing at all, and an
  assignment to it adds no l-value diagnostic to those of its right operand.
\<close>

theorem analyzerValue_error_node_lvalue:
  assumes "isErrorNode Node"
  shows "analyzerValue X ctx Node =
      Some (\<lparr>dt = typeCreateInvalid, lvalue = True\<rparr>, set_dt Node typeCreateInvalid, ctx) \<and>
    (ast_r P = Some Node \<and> ast_o P \<in> {''++'', ''--'', ''&''} \<longrightarrow>
       resultDiags (analyzerUOP X ctx P) = Some (diags ctx)) \<and>
    (ast_l Q = Some Node \<and> ast_r Q = Some Rn \<and> analyzerValue X ctx Rn = Some (R, Rn', c2) \<and>
     isAssignmentBOP (ast_o Q) \<longrightarrow>
       map_option (filter isLvalueDiag) (resultDiags (analyzerBOP X ctx Q))
         = Some (filter isLvalueDiag (diags c2)))"
proof -
  note val = analyzerValue_isErrorNode [OF assms]
  have uop: "resultDiags (analyzerUOP X ctx P) = Some (diags ctx)"
    if "ast_r P = Some Node" "ast_o P \<in> {''++'', ''--'', ''&''}"
    using that
    by (auto simp: analyzerUOP.simps val typeCreateInvalid_def typeIsNumeric_def
          typeIsInvalid_def)
  have bop: "map_option (filter isLvalueDiag) (resultDiags (analyzerBOP X ctx Q))
         = Some (filter isLvalueDiag (diags c2))"
    if "ast_l Q = Some Node" "ast_r Q = Some Rn" "analyzerValue X ctx Rn = Some (R, Rn', c2)"
      "isAssignmentBOP (ast_o Q)"
    using that
    by (simp add: analyzerBOP.simps val typeCreateInvalid_def typeIsCompatible_Invalid_left
          typeDeriveFromTwo_def typeIsInvalid_def Let_def)
  from val uop bop show ?thesis by blast
qed

theorem analyzerValue_error_node_lvalue_witness:
  "isErrorNode exBad \<and> ast_r exAddrBad = Some exBad \<and> ast_o exAddrBad \<in> {''++'', ''--'', ''&''} \<and>
   ast_l exAssignBad = Some exBad \<and> ast_r exAssignBad = Some exOne \<and>
   analyzerValue exX exCtx exOne =
     Some (\<lparr>dt = Basic 3, lvalue = False\<rparr>, set_dt exOne (Basic 3), exCtx) \<and>
   isAssignmentBOP (ast_o exAssignBad) \<and>
   analyzerValue exX exCtx exBad =
     Some (\<lparr>dt = Invalid, lvalue = True\<rparr>, set_dt exBad Invalid, exCtx) \<and>
   resultDiags (analyzerUOP exX exCtx exAddrBad) = Some [] \<and>
   map_option (filter isLvalueDiag) (resultDiags (analyzerBOP exX exCtx exAssignBad)) = Some []"
  using analyzerValue_error_node_lvalue
    [of exBad exX exCtx exAddrBad exAssignBad exOne "\<lparr>dt = Basic 3, lvalue = False\<rparr>"
        "set_dt exOne (Basic 3)" exCtx]
  by (simp add: analyzerValue.simps analyzerLiteral_def finish_def
        isErrorNode_def type_defs ex_defs op_defs)

lemma ast_dt_set_dt [simp]: "ast_dt (set_dt n T) = Some T"
  by (cases n) simp

lemma ast_dt_set_l [simp]: "ast_dt (set_l n x) = ast_dt n"
  by (cases n) simp

lemma ast_dt_set_children [simp]: "ast_dt (set_children n xs) = ast_dt n"
  by (cases n) simp

lemma firstChild_set_children [simp]: "firstChild (set_children n xs) = xs"
  by (cases n) simp

lemma resultTyped_finish [simp]: "resultTyped (finish n T lv c)"
  by (simp add: resultTyped_def finish_def)

lemma resultTyped_None [simp]: "resultTyped None"
  by (simp add: resultTyped_def)

lemma resultTyped_bind [simp]: "resultTyped (Option.bind m f) \<longleftrightarrow> (\<forall>x. m = Some x \<longrightarrow> resultTyped (f x))"
  by (cases m) simp_all

lemma resultTyped_Some [simp]: "resultTyped (Some (v, n, c)) \<longleftrightarrow> ast_dt n = Some (dt v)"
  by (simp add: resultTyped_def)

lemma resultTyped_literal: "resultTyped (analyzerLiteral X c n)"
  by (simp add: analyzerLiteral_def split: option.splits)

lemma resultTyped_BOP: "resultTyped (analyzerBOP X c n)"
  by (simp add: analyzerBOP.simps Let_def split: prod.splits)

lemma resultTyped_Comparison: "resultTyped (analyzerComparisonBOP X c n)"
  by (simp add: analyzerComparisonBOP.simps Let_def split: prod.splits)

lemma resultTyped_Logical: "resultTyped (analyzerLogicalBOP X c n)"
  by (simp add: analyzerLogicalBOP.simps Let_def split: prod.splits)

lemma resultTyped_Member: "resultTyped (analyzerMemberBOP X c n)"
  by (simp add: analyzerMemberBOP.simps Let_def split: prod.splits option.splits)

lemma resultTyped_Comma: "resultTyped (analyzerCommaBOP X c n)"
  by (simp add: analyzerCommaBOP.simps Let_def split: prod.splits)

lemma resultTyped_UOP: "resultTyped (analyzerUOP X c n)"
  by (simp add: analyzerUOP.simps Let_def split: prod.splits)

lemma resultTyped_Ternary: "resultTyped (analyzerTernary X c n)"
  by (simp add: analyzerTernary.simps Let_def split: prod.splits list.splits)

lemma resultTyped_Index: "resultTyped (analyzerIndex X c n)"
  by (simp add: analyzerIndex.simps Let_def split: prod.splits)

lemma resultTyped_Call: "resultTyped (analyzerCall X c n)"
  by (simp add: analyzerCall.simps Let_def split: prod.splits)

lemma resultTyped_Cast: "resultTyped (analyzerCast X c n)"
  by (simp add: analyzerCast.simps Let_def split: prod.splits)

lemma resultTyped_Sizeof: "resultTyped (analyzerSizeof X c n)"
  by (simp add: analyzerSizeof.simps Let_def split: prod.splits)

lemma resultTyped_Init: "resultTyped (analyzerInitOrCompoundLiteral X c n DT)"
  by (simp add: analyzerInitOrCompoundLiteral.simps Let_def
      split: prod.splits list.splits)

lemma resultTyped_Compound: "resultTyped (analyzerCompoundLiteral X c n)"
  by (simp add: analyzerCompoundLiteral.simps Let_def
      split: prod.splits)

lemma resultTyped_Value: "resultTyped (analyzerValue X c n)"
  by (simp add: analyzerValue.simps resultTyped_literal resultTyped_BOP resultTyped_Comparison resultTyped_Logical
       resultTyped_Member resultTyped_Comma resultTyped_UOP resultTyped_Ternary resultTyped_Index resultTyped_Call resultTyped_Cast
       resultTyped_Sizeof resultTyped_Compound)


lemma analyzerInitElements_all_typed:
  "analyzerInitElements X c b cs = Some (es, c') \<Longrightarrow>
     length es = length cs \<and> list_all (\<lambda>e. ast_dt e \<noteq> None) es"
proof (induction cs arbitrary: c es c')
  case Nil
  then show ?case by simp
next
  case (Cons curNode siblings)
  from Cons.prems obtain curValue curNode' c1 compatible elements where
    first: "(if ast_tag curNode = astLiteral \<and> litTag curNode = literalInit
             then analyzerInitOrCompoundLiteral X c curNode b
             else analyzerValue X c curNode) = Some (curValue, curNode', c1)"
    and rest: "analyzerInitElements X
                 (if \<not> compatible
                  then errorTypeExpectedType c1 ''array initialization'' b else c1)
                 b siblings = Some (elements, c')"
    and es: "es = curNode' # elements"
    by (auto simp: Let_def split: Option.bind_splits prod.splits)
  have "resultTyped (if ast_tag curNode = astLiteral \<and> litTag curNode = literalInit
               then analyzerInitOrCompoundLiteral X c curNode b
               else analyzerValue X c curNode)"
    by (simp add: resultTyped_Init resultTyped_Value)
  with first have "ast_dt curNode' = Some (dt curValue)"
    by simp
  with Cons.IH [OF rest] es show ?case by simp
qed

text \<open>
  C10. When the number of elements of a struct initializer differs from the number of
  fields, \<open>analyzerInitOrCompoundLiteral\<close> reports one arity diagnostic and returns
  with the elements untouched. For an array with too many elements, the arity
  diagnostic is followed by the loop over the elements, and when the analysis
  returns, the node has as many elements as before and every one of them has got
  its derived type.
\<close>

theorem analyzerInit_struct_arity_mismatch:
  assumes "sym_tag (syms ctx s) = symStruct"
    and "int (length (sym_children (syms ctx s))) \<noteq> children Node"
  shows "analyzerInitOrCompoundLiteral X ctx Node (typeCreateBasic s) =
      Some (\<lparr>dt = typeCreateBasic s, lvalue = False\<rparr>, set_dt Node (typeCreateBasic s),
            errorDegree ctx ''fields'' (int (length (sym_children (syms ctx s))))
              (children Node) (ident (syms ctx s))) \<and>
    firstChild (set_dt Node (typeCreateBasic s)) = firstChild Node \<and>
    diags (errorDegree ctx ''fields'' (int (length (sym_children (syms ctx s))))
              (children Node) (ident (syms ctx s)))
      = diags ctx @ [Degree ''fields'' (int (length (sym_children (syms ctx s))))
              (children Node) (ident (syms ctx s))] \<and>
    (n \<noteq> - 1 \<and> n < children Arr \<longrightarrow>
       analyzerInitOrCompoundLiteral X ctx Arr (typeCreateArray b n) =
         do {
           (elements, c1) \<leftarrow>
             analyzerInitElements X (errorDegree ctx ''elements'' n (children Arr) ''array'')
               b (firstChild Arr);
           Some (\<lparr>dt = typeCreateArray b n, lvalue = False\<rparr>,
                 set_children (set_dt Arr (typeCreateArray b n)) elements, c1)
         } \<and>
       (\<forall>v Arr' c'.
          analyzerInitOrCompoundLiteral X ctx Arr (typeCreateArray b n) = Some (v, Arr', c') \<longrightarrow>
            length (firstChild Arr') = length (firstChild Arr) \<and>
            list_all (\<lambda>e. ast_dt e \<noteq> None) (firstChild Arr')))"
proof -
  have struct: "analyzerInitOrCompoundLiteral X ctx Node (typeCreateBasic s) =
      Some (\<lparr>dt = typeCreateBasic s, lvalue = False\<rparr>, set_dt Node (typeCreateBasic s),
            errorDegree ctx ''fields'' (int (length (sym_children (syms ctx s))))
              (children Node) (ident (syms ctx s)))"
    using assms
    by (simp add: analyzerInitOrCompoundLiteral.simps typeCreateBasic_def
          typeIsInvalid_def typeDeepDuplicate_id Let_def)
  have arr: "analyzerInitOrCompoundLiteral X ctx Arr (typeCreateArray b n) =
         do {
           (elements, c1) \<leftarrow>
             analyzerInitElements X (errorDegree ctx ''elements'' n (children Arr) ''array'')
               b (firstChild Arr);
           Some (\<lparr>dt = typeCreateArray b n, lvalue = False\<rparr>,
                 set_children (set_dt Arr (typeCreateArray b n)) elements, c1)
         }"
    if "n \<noteq> - 1" "n < children Arr"
    using that
    by (simp add: analyzerInitOrCompoundLiteral.simps typeCreateArray_def
          typeIsInvalid_def typeIsArray_def typeDeepDuplicate_id Let_def)
  have all: "length (firstChild Arr') = length (firstChild Arr) \<and>
            list_all (\<lambda>e. ast_dt e \<noteq> None) (firstChild Arr')"
    if "n \<noteq> - 1" "n < children Arr"
      "analyzerInitOrCompoundLiteral X ctx Arr (typeCreateArray b n) = Some (v, Arr', c')"
    for v Arr' c'
  proof -
    from that(3) arr [OF that(1,2)] obtain elements where
      loop: "analyzerInitElements X (errorDegree ctx ''elements'' n (children Arr) ''array'')
               b (firstChild Arr) = Some (elements, c')"
      and node: "Arr' = set_children (set_dt Arr (typeCreateArray b n)) elements"
      by (auto split: Option.bind_splits)
    from analyzerInitElements_all_typed [OF loop] node show ?thesis by simp
  qed
  from struct arr all show ?thesis
    by (simp add: errorDegree_def report_def)
qed

theorem analyzerInit_struct_arity_mismatch_witness:
  "sym_tag (syms exCtx 4) = symStruct \<and>
   int (length (sym_children (syms exCtx 4))) \<noteq> children (exInit [exDeref]) \<and>
   (1::int) \<noteq> - 1 \<and> 1 < children (exInit [exDeref, exDeref]) \<and>
   analyzerInitOrCompoundLiteral exX exCtx (exInit [exDeref]) (Basic 4) =
     Some (\<lparr>dt = Basic 4, lvalue = False\<rparr>, set_dt (exInit [exDeref]) (Basic 4),
           exCtx\<lparr>diags := [Degree ''fields'' 2 1 ''S'']\<rparr>) \<and>
   resultDiags (analyzerInitOrCompoundLiteral exX exCtx (exInit [exDeref, exDeref])
                  (Array (Basic 3) 1)) =
     Some [Degree ''elements'' 1 2 ''array'', TypeExpected ''*'' ''pointer'',
           TypeExpected ''*'' ''pointer''] \<and>
   map_option firstChild
       (resultNode (analyzerInitOrCompoundLiteral exX exCtx (exInit [exDeref, exDeref])
                      (Array (Basic 3) 1))) =
     Some [set_dt (set_r exDeref (set_dt exOne (Basic 3))) Invalid,
           set_dt (set_r exDeref (set_dt exOne (Basic 3))) Invalid]"
  using analyzerInit_struct_arity_mismatch
    [where ctx = exCtx and s = 4 and Node = "exInit [exDeref]" and X = exX and n = 1
       and b = "Basic 3" and Arr = "exInit [exDeref, exDeref]"]
  by (simp add: analyzer_simps analyzerLiteral_def finish_def type_defs err_defs ex_defs
        resultDiags_def resultNode_def children_def typeIsCompatible_Invalid_left)

end
